theory Spec2Isabelle
  imports Complex_Main
begin

section \<open>Values and errors\<close>

text \<open>
  The three programs of the repository (\<^verbatim>\<open>pay_records.py\<close>, \<^verbatim>\<open>pay_records_refactor.py\<close>,
  \<^verbatim>\<open>pay_records_refactor_2.py\<close>) compute with Python's \<^verbatim>\<open>Decimal\<close>. A finite
  \<^verbatim>\<open>Decimal\<close> is modelled as an exact rational; the rounding of the decimal context
  (28 significant digits by default) is outside the model. The only non-finite value
  the source writes is \<^verbatim>\<open>Decimal('infinity')\<close>, the upper bound of the last band of
  each table, so an upper bound is a rational or \<open>Infinity\<close>.
\<close>

datatype bound = Finite rat | Infinity

text \<open>\<^verbatim>\<open>income < bracket.upper_bound\<close>\<close>

fun less_bound :: "rat \<Rightarrow> bound \<Rightarrow> bool" where
  "less_bound x (Finite u) = (x < u)"
| "less_bound x Infinity = True"

text \<open>
  Every exception the modelled code can raise is a value.
  \<^item> \<open>NoSuitableTaxBracket income\<close>: \<^verbatim>\<open>ValueError(f"No suitable tax bracket for income: {income}")\<close>
  \<^item> \<open>HoursNotPositive\<close>: \<^verbatim>\<open>ValueError("Hours worked must be positive values")\<close>
  \<^item> \<open>RatesNotPositive\<close>: \<^verbatim>\<open>ValueError("Rates must be positive values")\<close>
  \<^item> \<open>TooFewColumns row\<close>: \<^verbatim>\<open>ValueError(f"A row does not contain {MIN_COLUMN_VAL} columns: {row}")\<close>
  \<^item> \<open>IndexError\<close>: a list index out of range
  \<^item> \<open>TypeError\<close>: arithmetic on \<^verbatim>\<open>None\<close>, or too many positional arguments
  \<^item> \<open>AttributeError\<close>: a property the class does not have
  \<^item> \<open>NotEnoughValues\<close>: \<^verbatim>\<open>ValueError("not enough values to unpack")\<close>
  \<^item> \<open>ConversionError s\<close>: \<^verbatim>\<open>int(s)\<close> or \<^verbatim>\<open>Decimal(s)\<close> refusing the text \<open>s\<close>
\<close>

datatype error =
    NoSuitableTaxBracket rat
  | HoursNotPositive
  | RatesNotPositive
  | TooFewColumns "string list"
  | IndexError
  | TypeError
  | AttributeError
  | NotEnoughValues
  | ConversionError string

section \<open>Tax brackets and the calculator\<close>

text \<open>
  \<^verbatim>\<open>TaxBracket = namedtuple('TaxBracket', ['lower_bound', 'upper_bound', 'rates', 'fixed_amount'],
     defaults=(Decimal('0.0'), Decimal('0.0'), Decimal('0.0'), Decimal('0.0')))\<close>
\<close>

record TaxBracket =
  lower_bound :: rat
  upper_bound :: bound
  rates :: rat
  fixed_amount :: rat

text \<open>\<^verbatim>\<open>ResidentPayRecord.TAX_BRACKETS\<close> (the same list in the three files).\<close>

definition RESIDENT_TAX_BRACKETS :: "TaxBracket list" where
  "RESIDENT_TAX_BRACKETS =
    [ \<lparr>lower_bound = 0, upper_bound = Finite 72, rates = 0.19, fixed_amount = 0.19\<rparr>,
      \<lparr>lower_bound = 72, upper_bound = Finite 361, rates = 0.2342, fixed_amount = 3.213\<rparr>,
      \<lparr>lower_bound = 361, upper_bound = Finite 932, rates = 0.3477, fixed_amount = 44.2476\<rparr>,
      \<lparr>lower_bound = 932, upper_bound = Finite 1380, rates = 0.345, fixed_amount = 41.7311\<rparr>,
      \<lparr>lower_bound = 1380, upper_bound = Finite 3111, rates = 0.39, fixed_amount = 103.8657\<rparr>,
      \<lparr>lower_bound = 3111, upper_bound = Infinity, rates = 0.47, fixed_amount = 352.788\<rparr> ]"

text \<open>
  \<^verbatim>\<open>WorkingHolidayPayRecord.TAX_BRACKETS\<close>: three arguments each, so \<open>fixed_amount\<close> is the
  default \<^verbatim>\<open>Decimal('0.0')\<close>.
\<close>

definition WORKING_HOLIDAY_TAX_BRACKETS :: "TaxBracket list" where
  "WORKING_HOLIDAY_TAX_BRACKETS =
    [ \<lparr>lower_bound = 0, upper_bound = Finite 37000, rates = 0.15, fixed_amount = 0\<rparr>,
      \<lparr>lower_bound = 37000, upper_bound = Finite 90000, rates = 0.32, fixed_amount = 0\<rparr>,
      \<lparr>lower_bound = 90000, upper_bound = Finite 180000, rates = 0.37, fixed_amount = 0\<rparr>,
      \<lparr>lower_bound = 180000, upper_bound = Infinity, rates = 0.45, fixed_amount = 0\<rparr> ]"

text \<open>The test of the loop: \<^verbatim>\<open>bracket.lower_bound <= income < bracket.upper_bound\<close>.\<close>

definition in_bracket :: "rat \<Rightarrow> TaxBracket \<Rightarrow> bool" where
  "in_bracket income bracket \<longleftrightarrow>
     lower_bound bracket \<le> income \<and> less_bound income (upper_bound bracket)"

text \<open>
  \<^verbatim>\<open>TaxCalculator.calculate_tax\<close> (\<^verbatim>\<open>pay_records_refactor.py\<close> and
  \<^verbatim>\<open>pay_records_refactor_2.py\<close>):
  \<^verbatim>\<open>
    for bracket in self._tax_brackets:
        if bracket.lower_bound <= income < bracket.upper_bound:
            return bracket.rates * income - bracket.fixed_amount
    raise ValueError(f"No suitable tax bracket for income: {income}")
  \<close>
  The calculator object holds nothing but its table, which is the first argument here.
\<close>

fun calculate_tax :: "TaxBracket list \<Rightarrow> rat \<Rightarrow> error + rat" where
  "calculate_tax [] income = Inl (NoSuitableTaxBracket income)"
| "calculate_tax (bracket # brackets) income =
     (if in_bracket income bracket
      then Inr (rates bracket * income - fixed_amount bracket)
      else calculate_tax brackets income)"

section \<open>Pay records\<close>

text \<open>
  The two concrete classes of \<^verbatim>\<open>PayRecord\<close>. The fields \<^verbatim>\<open>_id\<close>, \<^verbatim>\<open>_hours\<close>,
  \<^verbatim>\<open>_rates\<close>, \<^verbatim>\<open>_visa\<close>, \<^verbatim>\<open>_year_to_date\<close> are the selectors \<open>self_id\<close>, ...;
  \<^verbatim>\<open>_year_to_date\<close> is optional because \<^verbatim>\<open>create_pay_record\<close> of
  \<^verbatim>\<open>pay_records_refactor.py\<close> passes its default \<^verbatim>\<open>None\<close> on. The field
  \<^verbatim>\<open>_tax_calculator\<close> is fixed by the class (\<open>tax_brackets\<close> below).
\<close>

datatype PayRecord =
    ResidentPayRecord (self_id: int) (self_hours: "rat list") (self_rates: "rat list")
  | WorkingHolidayPayRecord (self_id: int) (self_hours: "rat list") (self_rates: "rat list")
      (self_visa: string) (self_year_to_date: "rat option")

fun tax_brackets :: "PayRecord \<Rightarrow> TaxBracket list" where
  "tax_brackets (ResidentPayRecord i hs rs) = RESIDENT_TAX_BRACKETS"
| "tax_brackets (WorkingHolidayPayRecord i hs rs v y) = WORKING_HOLIDAY_TAX_BRACKETS"

text \<open>Python's \<^verbatim>\<open>sum\<close>: starts at \<open>0\<close> and adds the items from the left.\<close>

definition py_sum :: "rat list \<Rightarrow> rat" where
  "py_sum xs = foldl (+) 0 xs"

text \<open>\<^verbatim>\<open>sum(hour * rate for hour, rate in zip(self._hours, self._rates))\<close>\<close>

definition hours_times_rates :: "rat list \<Rightarrow> rat list \<Rightarrow> rat" where
  "hours_times_rates hs rs = py_sum (map (\<lambda>(hour, rate). hour * rate) (zip hs rs))"

subsection \<open>\<^verbatim>\<open>pay_records_refactor.py\<close> and \<^verbatim>\<open>pay_records_refactor_2.py\<close>\<close>

text \<open>
  \<^verbatim>\<open>ResidentPayRecord.income\<close>: the sum. \<^verbatim>\<open>WorkingHolidayPayRecord.income\<close>:
  \<^verbatim>\<open>self._year_to_date + sum(...)\<close>, a \<^verbatim>\<open>TypeError\<close> when the field is \<^verbatim>\<open>None\<close>.
\<close>

fun income :: "PayRecord \<Rightarrow> error + rat" where
  "income (ResidentPayRecord i hs rs) = Inr (hours_times_rates hs rs)"
| "income (WorkingHolidayPayRecord i hs rs v None) = Inl TypeError"
| "income (WorkingHolidayPayRecord i hs rs v (Some y)) = Inr (y + hours_times_rates hs rs)"

text \<open>\<^verbatim>\<open>PayRecord.tax\<close>: \<^verbatim>\<open>self._tax_calculator.calculate_tax(self.income)\<close>\<close>

definition tax :: "PayRecord \<Rightarrow> error + rat" where
  "tax r = (case income r of Inl e \<Rightarrow> Inl e | Inr x \<Rightarrow> calculate_tax (tax_brackets r) x)"

text \<open>\<^verbatim>\<open>PayRecord.net\<close>: \<^verbatim>\<open>self.income - self.tax\<close>, the income read first.\<close>

definition net :: "PayRecord \<Rightarrow> error + rat" where
  "net r = (case income r of Inl e \<Rightarrow> Inl e
            | Inr x \<Rightarrow> (case tax r of Inl e \<Rightarrow> Inl e | Inr t \<Rightarrow> Inr (x - t)))"

text \<open>
  \<^verbatim>\<open>add_hours\<close> and \<^verbatim>\<open>add_rates\<close> extend the record's own list. Their
  \<^verbatim>\<open>isinstance(..., Decimal)\<close> test cannot fail on a list of decimals, which is what the
  type of the argument says here.
\<close>

fun add_hours :: "PayRecord \<Rightarrow> rat list \<Rightarrow> PayRecord" where
  "add_hours (ResidentPayRecord i hs rs) extra = ResidentPayRecord i (hs @ extra) rs"
| "add_hours (WorkingHolidayPayRecord i hs rs v y) extra = WorkingHolidayPayRecord i (hs @ extra) rs v y"

fun add_rates :: "PayRecord \<Rightarrow> rat list \<Rightarrow> PayRecord" where
  "add_rates (ResidentPayRecord i hs rs) extra = ResidentPayRecord i hs (rs @ extra)"
| "add_rates (WorkingHolidayPayRecord i hs rs v y) extra = WorkingHolidayPayRecord i hs (rs @ extra) v y"

text \<open>
  A read of a derived property, with the object after the read: the three properties
  assign to nothing, so the object is returned as it was. There is no field that holds
  a computed income, tax or net.
\<close>

datatype derived = Income | Tax | Net

fun read_property :: "derived \<Rightarrow> PayRecord \<Rightarrow> (error + rat) \<times> PayRecord" where
  "read_property Income r = (income r, r)"
| "read_property Tax r = (tax r, r)"
| "read_property Net r = (net r, r)"

subsection \<open>\<^verbatim>\<open>pay_records.py\<close>, the first iteration\<close>

text \<open>
  The first iteration has no calculator: each class has its own \<^verbatim>\<open>gross\<close> and
  \<^verbatim>\<open>tax\<close>, and \<^verbatim>\<open>year_to_date\<close> adds the gross to the field. Its names carry the
  suffix \<open>_v1\<close> where a later iteration uses the name again.

  \<^verbatim>\<open>gross\<close>, the same in both classes:
  \<^verbatim>\<open>sum(hour * rate for hour, rate in zip(self._hours, self._rates))\<close>
\<close>

definition gross :: "PayRecord \<Rightarrow> rat" where
  "gross r = hours_times_rates (self_hours r) (self_rates r)"

text \<open>
  \<^verbatim>\<open>ResidentPayRecord.tax\<close>:
  \<^verbatim>\<open>
    for bracket in self.TAX_BRACKETS:
        if bracket.lower_bound <= self.gross < bracket.upper_bound:
            return bracket.rates * self.gross - bracket.fixed_amount
  \<close>
  Falling off the loop returns \<^verbatim>\<open>None\<close>.
\<close>

fun resident_tax_loop :: "TaxBracket list \<Rightarrow> rat \<Rightarrow> rat option" where
  "resident_tax_loop [] g = None"
| "resident_tax_loop (bracket # brackets) g =
     (if lower_bound bracket \<le> g \<and> less_bound g (upper_bound bracket)
      then Some (rates bracket * g - fixed_amount bracket)
      else resident_tax_loop brackets g)"

text \<open>
  \<^verbatim>\<open>WorkingHolidayPayRecord.tax\<close>:
  \<^verbatim>\<open>
    for bracket in self.TAX_BRACKETS:
        if bracket.lower_bound <= self.year_to_date < bracket.upper_bound:
            return bracket.rates * self.gross
  \<close>
  with \<^verbatim>\<open>year_to_date\<close> the property \<^verbatim>\<open>self._year_to_date + self.gross\<close>.
\<close>

fun working_holiday_tax_loop :: "TaxBracket list \<Rightarrow> rat \<Rightarrow> rat \<Rightarrow> rat option" where
  "working_holiday_tax_loop [] ytd g = None"
| "working_holiday_tax_loop (bracket # brackets) ytd g =
     (if lower_bound bracket \<le> ytd \<and> less_bound ytd (upper_bound bracket)
      then Some (rates bracket * g)
      else working_holiday_tax_loop brackets ytd g)"

fun year_to_date_v1 :: "PayRecord \<Rightarrow> error + rat" where
  "year_to_date_v1 (WorkingHolidayPayRecord i hs rs v (Some y)) =
     Inr (y + gross (WorkingHolidayPayRecord i hs rs v (Some y)))"
| "year_to_date_v1 (WorkingHolidayPayRecord i hs rs v None) = Inl TypeError"
| "year_to_date_v1 (ResidentPayRecord i hs rs) = Inl AttributeError"

fun tax_v1 :: "PayRecord \<Rightarrow> error + rat option" where
  "tax_v1 (ResidentPayRecord i hs rs) =
     Inr (resident_tax_loop RESIDENT_TAX_BRACKETS (gross (ResidentPayRecord i hs rs)))"
| "tax_v1 (WorkingHolidayPayRecord i hs rs v y) =
     (case year_to_date_v1 (WorkingHolidayPayRecord i hs rs v y) of
        Inl e \<Rightarrow> Inl e
      | Inr ytd \<Rightarrow> Inr (working_holiday_tax_loop WORKING_HOLIDAY_TAX_BRACKETS ytd
                         (gross (WorkingHolidayPayRecord i hs rs v y))))"

text \<open>\<^verbatim>\<open>PayRecord.net\<close>: \<^verbatim>\<open>(self.gross - self.tax)\<close>, a \<^verbatim>\<open>TypeError\<close> when the tax is \<^verbatim>\<open>None\<close>.\<close>

definition net_v1 :: "PayRecord \<Rightarrow> error + rat" where
  "net_v1 r = (case tax_v1 r of
                 Inl e \<Rightarrow> Inl e
               | Inr None \<Rightarrow> Inl TypeError
               | Inr (Some t) \<Rightarrow> Inr (gross r - t))"

section \<open>Rows, conversions and the aggregation loops\<close>

text \<open>
  A row is what \<^verbatim>\<open>csv.reader\<close> yields: a list of text fields. The header row is
  consumed by \<^verbatim>\<open>next(read_pay_record)\<close> before the loop, so the rows below are the data
  rows. The conversions \<^verbatim>\<open>int(...)\<close> and \<^verbatim>\<open>Decimal(...)\<close> are Python's, not the
  repository's: the loops take them as a parameter, and every theorem about a loop
  holds for any pair of conversions.
\<close>

record builtins =
  py_int :: "string \<Rightarrow> error + int"
  py_Decimal :: "string \<Rightarrow> error + rat"

type_synonym records = "int \<rightharpoonup> PayRecord"

definition MIN_COLUMN_VAL :: nat where
  "MIN_COLUMN_VAL = 3"

text \<open>Sequencing of steps that may raise.\<close>

definition and_then :: "error + 'a \<Rightarrow> ('a \<Rightarrow> error + 'b) \<Rightarrow> error + 'b" where
  "and_then r f = (case r of Inl e \<Rightarrow> Inl e | Inr x \<Rightarrow> f x)"

text \<open>\<^verbatim>\<open>xs[i]\<close> for \<open>i \<ge> 0\<close>\<close>

definition item :: "'a list \<Rightarrow> nat \<Rightarrow> error + 'a" where
  "item xs i = (if i < length xs then Inr (xs ! i) else Inl IndexError)"

text \<open>\<^verbatim>\<open>s.split(",")\<close>: never empty, \<^verbatim>\<open>"".split(",") == [""]\<close>.\<close>

fun split_comma :: "string \<Rightarrow> string list" where
  "split_comma [] = [[]]"
| "split_comma (c # cs) =
     (if c = CHR '','' then [] # split_comma cs
      else (case split_comma cs of [] \<Rightarrow> [[c]] | w # ws \<Rightarrow> (c # w) # ws))"

text \<open>\<^verbatim>\<open>[f(x) for x in xs]\<close>, stopping at the first \<open>f(x)\<close> that raises.\<close>

fun map_result :: "('a \<Rightarrow> error + 'b) \<Rightarrow> 'a list \<Rightarrow> error + 'b list" where
  "map_result f [] = Inr []"
| "map_result f (x # xs) =
     and_then (f x) (\<lambda>y. and_then (map_result f xs) (\<lambda>ys. Inr (y # ys)))"

text \<open>\<^verbatim>\<open>[Decimal(hour) for hour in field.split(",")]\<close>\<close>

definition decimals :: "builtins \<Rightarrow> string \<Rightarrow> error + rat list" where
  "decimals bi field = map_result (py_Decimal bi) (split_comma field)"

subsection \<open>\<^verbatim>\<open>pay_records_refactor.py\<close>\<close>

text \<open>
  \<^verbatim>\<open>create_pay_record(employee_id, hours, rates, visa=None, year_to_date=None)\<close>:
  \<^verbatim>\<open>
    if any(hour <= 0 for hour in hours):
        raise ValueError("Hours worked must be positive values")
    if any(rate <= 0 for rate in rates):
        raise ValueError("Rates must be positive values")
    if visa:
        return WorkingHolidayPayRecord(employee_id, hours, rates, visa, year_to_date)
    else:
        return ResidentPayRecord(employee_id, hours, rates)
  \<close>
  \<^verbatim>\<open>if visa\<close> holds for a text that is not empty.
\<close>

definition create_pay_record ::
  "int \<Rightarrow> rat list \<Rightarrow> rat list \<Rightarrow> string option \<Rightarrow> rat option \<Rightarrow> error + PayRecord" where
  "create_pay_record employee_id hs rs visa year_to_date =
     (if list_ex (\<lambda>hour. hour \<le> 0) hs then Inl HoursNotPositive
      else if list_ex (\<lambda>rate. rate \<le> 0) rs then Inl RatesNotPositive
      else (case visa of
              None \<Rightarrow> Inr (ResidentPayRecord employee_id hs rs)
            | Some v \<Rightarrow>
                if v \<noteq> [] then Inr (WorkingHolidayPayRecord employee_id hs rs v year_to_date)
                else Inr (ResidentPayRecord employee_id hs rs)))"

text \<open>
  The \<^verbatim>\<open>try\<close> block of \<^verbatim>\<open>main\<close>:
  \<^verbatim>\<open>
    try:
        visa = str(row[3]) if row[3] in ('417', '462') else None
        year_to_date = Decimal(row[4]) if row[4] else Decimal(0)
    except IndexError:
        visa = None
        year_to_date = None
  \<close>
  Only the \<^verbatim>\<open>IndexError\<close> is caught; a \<^verbatim>\<open>Decimal\<close> that refuses its text propagates.
\<close>

definition variant_fields :: "builtins \<Rightarrow> string list \<Rightarrow> error + (string option \<times> rat option)" where
  "variant_fields bi row =
     (case item row 3 of
        Inl e \<Rightarrow> Inr (None, None)
      | Inr c3 \<Rightarrow>
          (let visa = (if c3 = ''417'' \<or> c3 = ''462'' then Some c3 else None) in
           case item row 4 of
             Inl e \<Rightarrow> Inr (None, None)
           | Inr c4 \<Rightarrow>
               if c4 \<noteq> [] then and_then (py_Decimal bi c4) (\<lambda>y. Inr (visa, Some y))
               else Inr (visa, Some 0)))"

text \<open>
  The body of the \<^verbatim>\<open>for\<close> loop of \<^verbatim>\<open>main\<close> on one row:
  \<^verbatim>\<open>
    employee_id = int(row[0])
    hours = [Decimal(hour) for hour in row[1].split(",")]
    rates = [Decimal(rate) for rate in row[2].split(",")]
    (the try block)
    if employee_id not in combined_records:
        combined_records[employee_id] = create_pay_record(employee_id, hours, rates, visa, year_to_date)
    else:
        combined_records[employee_id].add_hours(hours)
        combined_records[employee_id].add_rates(rates)
  \<close>
  Every statement that can raise stands before the first write to
  \<^verbatim>\<open>combined_records\<close> or to a record, so a row that raises leaves the dictionary as it
  found it.
\<close>

definition process_row :: "builtins \<Rightarrow> records \<Rightarrow> string list \<Rightarrow> error + records" where
  "process_row bi combined_records row =
     and_then (item row 0) (\<lambda>c0. and_then (py_int bi c0) (\<lambda>employee_id.
     and_then (item row 1) (\<lambda>c1. and_then (decimals bi c1) (\<lambda>hs.
     and_then (item row 2) (\<lambda>c2. and_then (decimals bi c2) (\<lambda>rs.
     and_then (variant_fields bi row) (\<lambda>(visa, year_to_date).
       (case combined_records employee_id of
          None \<Rightarrow>
            and_then (create_pay_record employee_id hs rs visa year_to_date)
              (\<lambda>r. Inr (combined_records(employee_id \<mapsto> r)))
        | Some r \<Rightarrow>
            Inr (combined_records(employee_id \<mapsto> add_rates (add_hours r hs) rs))))))))))"

text \<open>
  \<^verbatim>\<open>main\<close>'s loop over the generator \<^verbatim>\<open>import_pay_records\<close>. The generator tests a row
  (\<^verbatim>\<open>if len(row) < MIN_COLUMN_VAL: raise ValueError(...)\<close>) right before it yields it, and
  its \<^verbatim>\<open>except\<close> clauses catch \<^verbatim>\<open>FileNotFoundError\<close> and \<^verbatim>\<open>PermissionError\<close> only;
  \<^verbatim>\<open>main\<close> has no handler around the loop. A raise therefore ends the run: the result
  is the exception together with the dictionary as it stood at that moment.
\<close>

fun main_loop :: "builtins \<Rightarrow> records \<Rightarrow> string list list \<Rightarrow> (error \<times> records) + records" where
  "main_loop bi combined_records [] = Inr combined_records"
| "main_loop bi combined_records (row # rows) =
     (if length row < MIN_COLUMN_VAL then Inl (TooFewColumns row, combined_records)
      else (case process_row bi combined_records row of
              Inl e \<Rightarrow> Inl (e, combined_records)
            | Inr combined_records' \<Rightarrow> main_loop bi combined_records' rows))"

subsection \<open>\<^verbatim>\<open>pay_records.py\<close>\<close>

text \<open>
  The first iteration's \<^verbatim>\<open>import_pay_records\<close> yields every row untested
  (\<^verbatim>\<open>yield from read_pay_record\<close>), its \<^verbatim>\<open>create_pay_record\<close> validates nothing, and
  \<^verbatim>\<open>main\<close> indexes the row directly:
  \<^verbatim>\<open>
    employee_id = int(row[0])
    hours = [Decimal(hour) for hour in row[1].split(",")]
    rates = [Decimal(rate) for rate in row[2].split(",")]
    visa = str(row[3])
    year_to_date = Decimal(row[4]) if row[4] else Decimal(0)
  \<close>
\<close>

definition create_pay_record_v1 :: "int \<Rightarrow> rat list \<Rightarrow> rat list \<Rightarrow> string \<Rightarrow> rat \<Rightarrow> PayRecord" where
  "create_pay_record_v1 employee_id hs rs visa year_to_date =
     (if visa \<noteq> [] then WorkingHolidayPayRecord employee_id hs rs visa (Some year_to_date)
      else ResidentPayRecord employee_id hs rs)"

definition process_row_v1 :: "builtins \<Rightarrow> records \<Rightarrow> string list \<Rightarrow> error + records" where
  "process_row_v1 bi combined_records row =
     and_then (item row 0) (\<lambda>c0. and_then (py_int bi c0) (\<lambda>employee_id.
     and_then (item row 1) (\<lambda>c1. and_then (decimals bi c1) (\<lambda>hs.
     and_then (item row 2) (\<lambda>c2. and_then (decimals bi c2) (\<lambda>rs.
     and_then (item row 3) (\<lambda>visa.
     and_then (item row 4) (\<lambda>c4.
     and_then (if c4 \<noteq> [] then py_Decimal bi c4 else Inr 0) (\<lambda>year_to_date.
       (case combined_records employee_id of
          None \<Rightarrow>
            Inr (combined_records(employee_id \<mapsto>
                   create_pay_record_v1 employee_id hs rs visa year_to_date))
        | Some r \<Rightarrow>
            Inr (combined_records(employee_id \<mapsto> add_rates (add_hours r hs) rs))))))))))))"

fun main_loop_v1 :: "builtins \<Rightarrow> records \<Rightarrow> string list list \<Rightarrow> (error \<times> records) + records" where
  "main_loop_v1 bi combined_records [] = Inr combined_records"
| "main_loop_v1 bi combined_records (row # rows) =
     (case process_row_v1 bi combined_records row of
        Inl e \<Rightarrow> Inl (e, combined_records)
      | Inr combined_records' \<Rightarrow> main_loop_v1 bi combined_records' rows)"

subsection \<open>\<^verbatim>\<open>pay_records_refactor_2.py\<close>\<close>

text \<open>
  \<^verbatim>\<open>PayRecordFactoryImpl.create(employee_id, hours, rates, visa=None, year_to_date=None)\<close>,
  called as \<^verbatim>\<open>self._factory.create(employee_id, hours, rates, *rest)\<close>: the first two
  fields of \<open>rest\<close> are \<open>visa\<close> and \<open>year_to_date\<close>, a third is one positional argument
  too many.
  \<^verbatim>\<open>
    if visa and year_to_date:
        return WorkingHolidayPayRecord(employee_id, hours, rates, visa, Decimal(year_to_date))
    else:
        return ResidentPayRecord(employee_id, hours, rates)
  \<close>
\<close>

fun create :: "builtins \<Rightarrow> int \<Rightarrow> rat list \<Rightarrow> rat list \<Rightarrow> string list \<Rightarrow> error + PayRecord" where
  "create bi employee_id hs rs [] = Inr (ResidentPayRecord employee_id hs rs)"
| "create bi employee_id hs rs [visa] = Inr (ResidentPayRecord employee_id hs rs)"
| "create bi employee_id hs rs [visa, year_to_date] =
     (if visa \<noteq> [] \<and> year_to_date \<noteq> []
      then and_then (py_Decimal bi year_to_date)
             (\<lambda>y. Inr (WorkingHolidayPayRecord employee_id hs rs visa (Some y)))
      else Inr (ResidentPayRecord employee_id hs rs))"
| "create bi employee_id hs rs (visa # year_to_date # surplus # others) = Inl TypeError"

text \<open>
  The body of the loop of \<^verbatim>\<open>PaySlipGenerator._read_records\<close>:
  \<^verbatim>\<open>
    employee_id, hours, rates, *rest = row
    employee_id = int(employee_id)
    hours = [Decimal(hour) for hour in hours.split(',')]
    rates = [Decimal(rate) for rate in rates.split(',')]
    if employee_id not in records:
        records[employee_id] = self._factory.create(employee_id, hours, rates, *rest)
    else:
        records[employee_id].add_hours(hours)
        records[employee_id].add_rates(rates)
  \<close>
\<close>

fun read_row :: "builtins \<Rightarrow> records \<Rightarrow> string list \<Rightarrow> error + records" where
  "read_row bi recs (c0 # c1 # c2 # rest) =
     and_then (py_int bi c0) (\<lambda>employee_id.
     and_then (decimals bi c1) (\<lambda>hs.
     and_then (decimals bi c2) (\<lambda>rs.
       (case recs employee_id of
          None \<Rightarrow> and_then (create bi employee_id hs rs rest) (\<lambda>r. Inr (recs(employee_id \<mapsto> r)))
        | Some r \<Rightarrow> Inr (recs(employee_id \<mapsto> add_rates (add_hours r hs) rs))))))"
| "read_row bi recs row = Inl NotEnoughValues"

text \<open>
  \<^verbatim>\<open>_read_records\<close> over \<^verbatim>\<open>CsvPayRecordIO.read_pay_records\<close>, which tests the row as
  \<^verbatim>\<open>import_pay_records\<close> of \<^verbatim>\<open>pay_records_refactor.py\<close> does. \<open>read_records_from\<close>
  is the loop from a given dictionary; \<^verbatim>\<open>_read_records\<close> starts it at \<^verbatim>\<open>{}\<close>.
\<close>

fun read_records_from :: "builtins \<Rightarrow> records \<Rightarrow> string list list \<Rightarrow> (error \<times> records) + records" where
  "read_records_from bi recs [] = Inr recs"
| "read_records_from bi recs (row # rows) =
     (if length row < MIN_COLUMN_VAL then Inl (TooFewColumns row, recs)
      else (case read_row bi recs row of
              Inl e \<Rightarrow> Inl (e, recs)
            | Inr recs' \<Rightarrow> read_records_from bi recs' rows))"

definition read_records :: "builtins \<Rightarrow> string list list \<Rightarrow> (error \<times> records) + records" where
  "read_records bi rows = read_records_from bi Map.empty rows"

subsection \<open>Conversions for concrete runs\<close>

text \<open>
  To run a loop on concrete rows, the conversions are instantiated with readers of
  plain literals: an optional sign, digits and, for a decimal, an optional point with
  digits after it. On such a text they return what \<^verbatim>\<open>int\<close> and \<^verbatim>\<open>Decimal\<close> return; the
  other spellings Python accepts (exponents, blanks, underscores, \<^verbatim>\<open>Infinity\<close>) are
  refused here and used nowhere below.
\<close>

fun position :: "char \<Rightarrow> string \<Rightarrow> nat \<Rightarrow> nat option" where
  "position c [] n = None"
| "position c (d # ds) n = (if c = d then Some n else position c ds (Suc n))"

definition digit_of :: "char \<Rightarrow> nat option" where
  "digit_of c = position c ''0123456789'' 0"

fun digits_value :: "nat \<Rightarrow> string \<Rightarrow> nat option" where
  "digits_value acc [] = Some acc"
| "digits_value acc (c # cs) =
     (case digit_of c of None \<Rightarrow> None | Some d \<Rightarrow> digits_value (10 * acc + d) cs)"

definition unsigned_decimal :: "string \<Rightarrow> rat option" where
  "unsigned_decimal s =
     (let whole = takeWhile (\<lambda>c. c \<noteq> CHR ''.'') s;
          frac = drop 1 (dropWhile (\<lambda>c. c \<noteq> CHR ''.'') s)
      in if whole = [] then None
         else (case (digits_value 0 whole, digits_value 0 frac) of
                 (Some a, Some b) \<Rightarrow> Some (of_nat a + of_nat b / 10 ^ length frac)
               | _ \<Rightarrow> None))"

definition plain_Decimal :: "string \<Rightarrow> error + rat" where
  "plain_Decimal s =
     (case s of
        [] \<Rightarrow> Inl (ConversionError s)
      | c # cs \<Rightarrow>
          (case (if c = CHR ''-'' then map_option uminus (unsigned_decimal cs)
                 else if c = CHR ''+'' then unsigned_decimal cs
                 else unsigned_decimal s) of
             None \<Rightarrow> Inl (ConversionError s)
           | Some x \<Rightarrow> Inr x))"

definition plain_int :: "string \<Rightarrow> error + int" where
  "plain_int s =
     (case s of
        [] \<Rightarrow> Inl (ConversionError s)
      | c # cs \<Rightarrow>
          (let body = (if c = CHR ''-'' \<or> c = CHR ''+'' then cs else s) in
           if body = [] then Inl (ConversionError s)
           else (case digits_value 0 body of
                   None \<Rightarrow> Inl (ConversionError s)
                 | Some n \<Rightarrow> Inr (if c = CHR ''-'' then - int n else int n))))"

definition plain :: builtins where
  "plain = \<lparr>py_int = plain_int, py_Decimal = plain_Decimal\<rparr>"

text \<open>
  The employee id of a row: what \<^verbatim>\<open>int\<close> makes of its first field, when there is one
  and it converts. It names the rows that came before a given row for the same employee.
\<close>

fun employee_id_of :: "builtins \<Rightarrow> string list \<Rightarrow> int option" where
  "employee_id_of bi [] = None"
| "employee_id_of bi (c0 # cs) = (case py_int bi c0 of Inl e \<Rightarrow> None | Inr i \<Rightarrow> Some i)"

section \<open>The shape of a bracket table\<close>


section \<open>Sums of hours times rates\<close>

lemma py_sum_sum_list: "py_sum xs = sum_list xs"
proof -
  have "foldl (+) a xs = a + sum_list xs" for a :: rat
    by (induction xs arbitrary: a) (simp_all add: add.assoc)
  from this [of 0] show ?thesis by (simp add: py_sum_def)
qed

lemma hours_times_rates_nth:
  "hours_times_rates hs rs = (\<Sum>i<min (length hs) (length rs). hs ! i * rs ! i)"
proof -
  have "sum_list (map (\<lambda>(hour, rate). hour * rate) (zip hs rs))
        = (\<Sum>i = 0..<length (zip hs rs). map (\<lambda>(hour, rate). hour * rate) (zip hs rs) ! i)"
    by (simp add: sum_list_sum_nth)
  also have "\<dots> = (\<Sum>i = 0..<min (length hs) (length rs). hs ! i * rs ! i)"
    by (rule sum.cong) simp_all
  finally show ?thesis
    by (simp add: hours_times_rates_def py_sum_sum_list atLeast0LessThan)
qed

lemma hours_times_rates_take:
  "hours_times_rates (take (min (length hs) (length rs)) hs) (take (min (length hs) (length rs)) rs)
   = hours_times_rates hs rs"
  by (simp add: hours_times_rates_nth)


lemma hours_times_rates_append:
  "length h = length t \<Longrightarrow>
     hours_times_rates (h @ hs) (t @ rs) = hours_times_rates h t + hours_times_rates hs rs"
  by (simp add: hours_times_rates_def py_sum_sum_list)

section \<open>The loops over a table\<close>

lemma calculate_tax_find:
  "calculate_tax table x =
     (case find (in_bracket x) table of
        None \<Rightarrow> Inl (NoSuitableTaxBracket x)
      | Some b \<Rightarrow> Inr (rates b * x - fixed_amount b))"
  by (induction table) simp_all





subsection \<open>Contiguous tables\<close>








section \<open>The loops over the rows\<close>

lemma main_loop_append:
  "main_loop bi recs (xs @ ys) =
     (case main_loop bi recs xs of Inl e \<Rightarrow> Inl e | Inr recs' \<Rightarrow> main_loop bi recs' ys)"
  by (induction xs arbitrary: recs) (simp_all split: sum.splits)

lemma read_records_from_append:
  "read_records_from bi recs (xs @ ys) =
     (case read_records_from bi recs xs of Inl e \<Rightarrow> Inl e | Inr recs' \<Rightarrow> read_records_from bi recs' ys)"
  by (induction xs arbitrary: recs) (simp_all split: sum.splits)

lemma read_records_from_last:
  assumes "read_records_from bi recs0 before = Inr recs"
  shows "read_records_from bi recs0 (before @ [c0 # c1 # c2 # rest]) =
           (case read_row bi recs (c0 # c1 # c2 # rest) of
              Inl e \<Rightarrow> Inl (e, recs) | Inr recs' \<Rightarrow> Inr recs')"
  using assms by (simp add: read_records_from_append MIN_COLUMN_VAL_def split: sum.splits)

lemma read_row_dom:
  assumes "read_row bi recs row = Inr recs'"
  shows "\<exists>i. employee_id_of bi row = Some i \<and> dom recs' = insert i (dom recs)"
proof -
  from assms obtain c0 c1 c2 rest where row: "row = c0 # c1 # c2 # rest"
    by (cases "(bi, recs, row)" rule: read_row.cases) simp_all
  from assms show ?thesis
    unfolding row
    by (auto simp: and_then_def split: sum.splits option.splits)
qed

lemma read_records_from_dom:
  "read_records_from bi recs rows = Inr recs' \<Longrightarrow>
     dom recs' = dom recs \<union> {i. Some i \<in> employee_id_of bi ` set rows}"
proof (induction rows arbitrary: recs)
  case Nil
  then show ?case by simp
next
  case (Cons row rows)
  from Cons.prems obtain mid where mid: "read_row bi recs row = Inr mid"
    and rest: "read_records_from bi mid rows = Inr recs'"
    by (auto split: if_splits sum.splits)
  from read_row_dom [OF mid] obtain i where i: "employee_id_of bi row = Some i"
    "dom mid = insert i (dom recs)" by blast
  from Cons.IH [OF rest] i show ?case by auto
qed

text \<open>The definitions a concrete record, and a concrete run, unfold to.\<close>

lemmas example_simps = tax_def net_def net_v1_def gross_def hours_times_rates_def py_sum_def
  in_bracket_def RESIDENT_TAX_BRACKETS_def WORKING_HOLIDAY_TAX_BRACKETS_def

lemmas run_simps = plain_def plain_int_def plain_Decimal_def unsigned_decimal_def digit_of_def
  decimals_def and_then_def item_def MIN_COLUMN_VAL_def process_row_def process_row_v1_def
  variant_fields_def create_pay_record_def create_pay_record_v1_def read_records_def

text \<open>
  In the first iteration a tax that matches no band is no error: \<^verbatim>\<open>tax\<close> falls off its
  loop and returns \<^verbatim>\<open>None\<close>, and \<^verbatim>\<open>net\<close> then fails on the subtraction.
\<close>

lemma first_iteration_tax_none:
  "tax_v1 (ResidentPayRecord 1 [- 1] [1]) = Inr None
   \<and> net_v1 (ResidentPayRecord 1 [- 1] [1]) = Inl TypeError"
  by (simp add: example_simps)

section \<open>The working-holiday tax base\<close>




section \<open>The calculator and the first matching band\<close>

text \<open>
  C2, as the specification states it: the calculator takes the first band with
  \<open>lower_bound \<le> income < upper_bound\<close> and returns \<open>rates * income - fixed_amount\<close>, and a
  resident with hours \<open>[10, 5]\<close> and rates \<open>[40, 45]\<close> owes a tax of 173.3649 and keeps
  451.6351. The figures of the example are not the program's: 0.3477 * 625 is 217.3125,
  and 217.3125 - 44.2476 is 173.0649.
\<close>

theorem resident_example_counterexample:
  "\<not> (tax (ResidentPayRecord 1 [10, 5] [40, 45]) = Inr 173.3649
      \<and> net (ResidentPayRecord 1 [10, 5] [40, 45]) = Inr 451.6351)"
  by (simp add: example_simps)

text \<open>
  C2, amended: for every income and every table, \<open>calculate_tax\<close> returns
  \<open>rates * income - fixed_amount\<close> of the first band of the table, in the table's order,
  with \<open>lower_bound \<le> income\<close> and \<open>income < upper_bound\<close>, and raises when there is none.
  A resident with hours \<open>[10, 5]\<close> and rates \<open>[40, 45]\<close> has income 625, which falls in
  the band (361, 932, 0.3477, 44.2476); the tax is 173.0649 and the net 451.9351, in the
  first iteration as in the later ones.
\<close>

theorem calculate_tax_first_matching_band:
  "calculate_tax table x =
     (case find (\<lambda>b. lower_bound b \<le> x \<and> less_bound x (upper_bound b)) table of
        None \<Rightarrow> Inl (NoSuitableTaxBracket x)
      | Some b \<Rightarrow> Inr (rates b * x - fixed_amount b))
   \<and> income (ResidentPayRecord 1 [10, 5] [40, 45]) = Inr 625
   \<and> find (\<lambda>b. lower_bound b \<le> 625 \<and> less_bound 625 (upper_bound b)) RESIDENT_TAX_BRACKETS
       = Some \<lparr>lower_bound = 361, upper_bound = Finite 932, rates = 0.3477, fixed_amount = 44.2476\<rparr>
   \<and> tax (ResidentPayRecord 1 [10, 5] [40, 45]) = Inr 173.0649
   \<and> net (ResidentPayRecord 1 [10, 5] [40, 45]) = Inr 451.9351
   \<and> tax_v1 (ResidentPayRecord 1 [10, 5] [40, 45]) = Inr (Some 173.0649)
   \<and> net_v1 (ResidentPayRecord 1 [10, 5] [40, 45]) = Inr 451.9351"
proof -
  have "calculate_tax table x =
     (case find (\<lambda>b. lower_bound b \<le> x \<and> less_bound x (upper_bound b)) table of
        None \<Rightarrow> Inl (NoSuitableTaxBracket x)
      | Some b \<Rightarrow> Inr (rates b * x - fixed_amount b))"
    using calculate_tax_find [of table x] by (simp add: in_bracket_def [abs_def])
  moreover have "income (ResidentPayRecord 1 [10, 5] [40, 45]) = Inr 625"
    by (simp add: example_simps)
  moreover have "find (\<lambda>b. lower_bound b \<le> 625 \<and> less_bound 625 (upper_bound b)) RESIDENT_TAX_BRACKETS
       = Some \<lparr>lower_bound = 361, upper_bound = Finite 932, rates = 0.3477, fixed_amount = 44.2476\<rparr>"
    by (simp add: RESIDENT_TAX_BRACKETS_def)
  moreover have "tax (ResidentPayRecord 1 [10, 5] [40, 45]) = Inr 173.0649"
    by (simp add: example_simps)
  moreover have "net (ResidentPayRecord 1 [10, 5] [40, 45]) = Inr 451.9351"
    by (simp add: example_simps)
  moreover have "tax_v1 (ResidentPayRecord 1 [10, 5] [40, 45]) = Inr (Some 173.0649)"
    by (simp add: example_simps)
  moreover have "net_v1 (ResidentPayRecord 1 [10, 5] [40, 45]) = Inr 451.9351"
    by (simp add: example_simps)
  ultimately show ?thesis by blast
qed

text \<open>The amended C2 at the working-holiday table and the income 39000.\<close>

theorem calculate_tax_first_matching_band_witness:
  "calculate_tax WORKING_HOLIDAY_TAX_BRACKETS 39000 = Inr 12480"
  using calculate_tax_first_matching_band [of WORKING_HOLIDAY_TAX_BRACKETS 39000]
  by (simp add: WORKING_HOLIDAY_TAX_BRACKETS_def)

section \<open>Rows with a value that is not positive\<close>

text \<open>
  C3: a row whose hours or rates hold a value that is not strictly positive must fail
  with the invalid-value error before any record is made or changed. In
  \<^verbatim>\<open>pay_records_refactor.py\<close> only \<^verbatim>\<open>create_pay_record\<close> tests the values, so the
  claim holds for the first row of an employee and not for a later one:
  \<^verbatim>\<open>add_hours\<close> and \<^verbatim>\<open>add_rates\<close> append whatever they are given. After the row
  \<open>1, 8, 20\<close>, the row \<open>1, -1, 20\<close> (or \<open>1, 0, 20\<close>) raises nothing and leaves employee 1
  with the hours \<open>[8, -1]\<close> (or \<open>[8, 0]\<close>); the same row as the employee's first row is
  refused, and so is a first row with a rate of 0.
\<close>

theorem non_positive_hours_appended_to_seen_employee:
  "main_loop plain Map.empty [[''1'', ''8'', ''20''], [''1'', ''-1'', ''20'']]
     = Inr [1 \<mapsto> ResidentPayRecord 1 [8, - 1] [20, 20]]
   \<and> main_loop plain Map.empty [[''1'', ''8'', ''20''], [''1'', ''0'', ''20'']]
     = Inr [1 \<mapsto> ResidentPayRecord 1 [8, 0] [20, 20]]
   \<and> main_loop plain Map.empty [[''1'', ''-1'', ''20'']] = Inl (HoursNotPositive, Map.empty)
   \<and> main_loop plain Map.empty [[''1'', ''8'', ''0'']] = Inl (RatesNotPositive, Map.empty)"
  by (simp add: run_simps)

section \<open>Rows with too few columns\<close>

text \<open>
  C4, as the specification states it: a row with fewer than three columns is rejected
  as malformed, without an index error and without a change to the dictionary, and the
  rows after it are processed. In \<^verbatim>\<open>pay_records_refactor.py\<close> the \<^verbatim>\<open>ValueError\<close> of the
  generator is caught nowhere: the run ends at the short row, and the row \<open>2, 8, 20\<close>
  that follows it is never read.
\<close>

theorem short_row_ends_the_run_counterexample:
  "main_loop plain Map.empty [[''1'', ''8''], [''2'', ''8'', ''20'']]
     = Inl (TooFewColumns [''1'', ''8''], Map.empty)
   \<and> main_loop plain Map.empty [[''2'', ''8'', ''20'']] = Inr [2 \<mapsto> ResidentPayRecord 2 [8] [20]]
   \<and> \<not> (main_loop plain Map.empty [[''1'', ''8''], [''2'', ''8'', ''20'']]
          = main_loop plain Map.empty [[''2'', ''8'', ''20'']])"
  by (simp add: run_simps)

text \<open>
  C4, amended: in \<^verbatim>\<open>pay_records_refactor.py\<close> and \<^verbatim>\<open>pay_records_refactor_2.py\<close>, when the
  rows before it have been aggregated into \<open>recs\<close>, a row with fewer than three columns
  raises the malformed-row error, not an index error, and the run ends there with the
  dictionary still \<open>recs\<close>, whatever rows follow. In \<^verbatim>\<open>pay_records.py\<close>, which tests no
  row, a row of two columns whose id and hours convert raises the index error at
  \<^verbatim>\<open>row[2]\<close>, and the run ends likewise.
\<close>

theorem short_row_raises_and_ends_the_run:
  "(length row < 3 \<and> main_loop bi recs0 before = Inr recs
      \<longrightarrow> main_loop bi recs0 (before @ row # after) = Inl (TooFewColumns row, recs))
   \<and> (length row < 3 \<and> read_records_from bi recs0 before = Inr recs
      \<longrightarrow> read_records_from bi recs0 (before @ row # after) = Inl (TooFewColumns row, recs))
   \<and> (py_int bi c0 = Inr employee_id \<and> decimals bi c1 = Inr hs
      \<longrightarrow> main_loop_v1 bi recs ([c0, c1] # after) = Inl (IndexError, recs))"
  by (simp add: main_loop_append read_records_from_append MIN_COLUMN_VAL_def
      process_row_v1_def and_then_def item_def)

text \<open>
  The amended C4 at the rows \<open>2, 8, 20\<close>, then \<open>1, 8\<close>, then \<open>3, 8, 20\<close>: employee 2 is
  aggregated, the short row raises, employee 3 is never reached.
\<close>

theorem short_row_raises_and_ends_the_run_witness:
  "main_loop plain Map.empty [[''2'', ''8'', ''20''], [''1'', ''8''], [''3'', ''8'', ''20'']]
     = Inl (TooFewColumns [''1'', ''8''], [2 \<mapsto> ResidentPayRecord 2 [8] [20]])
   \<and> read_records_from plain Map.empty [[''2'', ''8'', ''20''], [''1'', ''8''], [''3'', ''8'', ''20'']]
     = Inl (TooFewColumns [''1'', ''8''], [2 \<mapsto> ResidentPayRecord 2 [8] [20]])
   \<and> main_loop_v1 plain Map.empty [[''1'', ''8''], [''3'', ''8'', ''20'']] = Inl (IndexError, Map.empty)"
proof -
  have a: "main_loop plain Map.empty [[''2'', ''8'', ''20'']] = Inr [2 \<mapsto> ResidentPayRecord 2 [8] [20]]"
    by (simp add: run_simps)
  have b: "read_records_from plain Map.empty [[''2'', ''8'', ''20'']] = Inr [2 \<mapsto> ResidentPayRecord 2 [8] [20]]"
    by (simp add: run_simps)
  have c: "py_int plain ''1'' = Inr 1" "decimals plain ''8'' = Inr [8]"
    by (simp_all add: run_simps)
  from short_row_raises_and_ends_the_run
      [where row = "[''1'', ''8'']" and bi = plain and ?recs0.0 = Map.empty
         and before = "[[''2'', ''8'', ''20'']]" and recs = "[2 \<mapsto> ResidentPayRecord 2 [8] [20]]"
         and after = "[[''3'', ''8'', ''20'']]"]
    short_row_raises_and_ends_the_run
      [where bi = plain and ?c0.0 = "''1''" and employee_id = 1 and ?c1.0 = "''8''" and hs = "[8]"
         and recs = Map.empty and after = "[[''3'', ''8'', ''20'']]"]
  show ?thesis using a b c by simp
qed

section \<open>No matching bracket\<close>



section \<open>The fixed tables partition the incomes from zero up\<close>



section \<open>Creation on the first row, appending on the later ones\<close>

text \<open>
  C7: in \<^verbatim>\<open>_read_records\<close> of \<^verbatim>\<open>pay_records_refactor_2.py\<close>, after any rows that were
  read without an error, a row whose id, hours and rates convert is the first row of
  its employee exactly when the dictionary has no record under the id. Then the record
  the factory makes of the row is stored under the id. Otherwise the record under the
  id keeps its class, its id, its visa and its year-to-date, the hours of the row are
  appended to its hours and the rates to its rates, in the row's order, and the rest of
  the row is not looked at. No other entry of the dictionary changes.
\<close>

theorem read_records_creates_then_appends:
  assumes "read_records bi before = Inr recs"
    and "py_int bi c0 = Inr employee_id"
    and "decimals bi c1 = Inr hs" and "decimals bi c2 = Inr rs"
  shows "(recs employee_id = None) = (Some employee_id \<notin> employee_id_of bi ` set before)
    \<and> (recs employee_id = None \<and> create bi employee_id hs rs rest = Inr r
          \<longrightarrow> read_records bi (before @ [c0 # c1 # c2 # rest]) = Inr (recs(employee_id \<mapsto> r)))
    \<and> (recs employee_id = Some (ResidentPayRecord i h t)
          \<longrightarrow> read_records bi (before @ [c0 # c1 # c2 # rest])
              = Inr (recs(employee_id \<mapsto> ResidentPayRecord i (h @ hs) (t @ rs))))
    \<and> (recs employee_id = Some (WorkingHolidayPayRecord i h t v y)
          \<longrightarrow> read_records bi (before @ [c0 # c1 # c2 # rest])
              = Inr (recs(employee_id \<mapsto> WorkingHolidayPayRecord i (h @ hs) (t @ rs) v y)))"
proof -
  from assms(1) have run: "read_records_from bi Map.empty before = Inr recs"
    by (simp add: read_records_def)
  have "dom recs = {k. Some k \<in> employee_id_of bi ` set before}"
    using read_records_from_dom [OF run] by simp
  then have "(employee_id \<in> dom recs) = (Some employee_id \<in> employee_id_of bi ` set before)"
    by simp
  then have seen: "(recs employee_id = None) = (Some employee_id \<notin> employee_id_of bi ` set before)"
    using domIff [of employee_id recs] by blast
  note last = read_records_from_last [OF run, of c0 c1 c2 rest]
  have new: "read_records bi (before @ [c0 # c1 # c2 # rest]) = Inr (recs(employee_id \<mapsto> r))"
    if "recs employee_id = None" "create bi employee_id hs rs rest = Inr r"
    using that assms(2-4) by (simp add: read_records_def last and_then_def)
  have res: "read_records bi (before @ [c0 # c1 # c2 # rest])
              = Inr (recs(employee_id \<mapsto> ResidentPayRecord i (h @ hs) (t @ rs)))"
    if "recs employee_id = Some (ResidentPayRecord i h t)"
    using that assms(2-4) by (simp add: read_records_def last and_then_def)
  have wh: "read_records bi (before @ [c0 # c1 # c2 # rest])
              = Inr (recs(employee_id \<mapsto> WorkingHolidayPayRecord i (h @ hs) (t @ rs) v y))"
    if "recs employee_id = Some (WorkingHolidayPayRecord i h t v y)"
    using that assms(2-4) by (simp add: read_records_def last and_then_def)
  from seen new res wh show ?thesis by blast
qed

text \<open>
  C7 at two rows of employee 1: the first makes a working-holiday record with visa 417
  and year-to-date 100, the second, which names visa 462 and year-to-date 999, only
  appends its hours and rates.
\<close>

theorem read_records_creates_then_appends_witness:
  "read_records plain [[''1'', ''8'', ''20'', ''417'', ''100'']]
     = Inr [1 \<mapsto> WorkingHolidayPayRecord 1 [8] [20] ''417'' (Some 100)]
   \<and> read_records plain [[''1'', ''8'', ''20'', ''417'', ''100''], [''1'', ''2,3'', ''25,30'', ''462'', ''999'']]
     = Inr [1 \<mapsto> WorkingHolidayPayRecord 1 [8, 2, 3] [20, 25, 30] ''417'' (Some 100)]"
proof -
  have e: "read_records plain [] = Inr Map.empty"
    by (simp add: read_records_def)
  have p1: "py_int plain ''1'' = Inr 1" "decimals plain ''8'' = Inr [8]" "decimals plain ''20'' = Inr [20]"
    by (simp_all add: run_simps)
  have c: "create plain 1 [8] [20] [''417'', ''100''] = Inr (WorkingHolidayPayRecord 1 [8] [20] ''417'' (Some 100))"
    by (simp add: run_simps)
  from read_records_creates_then_appends [OF e p1, where rest = "[''417'', ''100'']"
      and r = "WorkingHolidayPayRecord 1 [8] [20] ''417'' (Some 100)"] c
  have first: "read_records plain [[''1'', ''8'', ''20'', ''417'', ''100'']]
     = Inr [1 \<mapsto> WorkingHolidayPayRecord 1 [8] [20] ''417'' (Some 100)]"
    by simp
  have p2: "decimals plain ''2,3'' = Inr [2, 3]" "decimals plain ''25,30'' = Inr [25, 30]"
    by (simp_all add: run_simps)
  from read_records_creates_then_appends [OF first p1(1) p2, where rest = "[''462'', ''999'']"
      and i = 1 and h = "[8]" and t = "[20]" and v = "''417''" and y = "Some 100"]
  show ?thesis using first by simp
qed

section \<open>Derived values are recomputed on every read\<close>

text \<open>
  C8: a read of income, tax or net leaves the record as it was, so a second read
  without an append in between returns what the first returned. After
  \<^verbatim>\<open>add_hours\<close> and \<^verbatim>\<open>add_rates\<close> the next read is computed from the extended lists: the
  income is the sum over the old lists followed by the new ones and, when the old lists
  were of equal length, the old income plus the sum over the appended hours and rates;
  the tax is the calculator's value at that income and the net that income minus that
  tax.
\<close>

theorem derived_values_recomputed_on_every_read:
  "read_property p (snd (read_property q r)) = read_property p r
   \<and> income (add_rates (add_hours (ResidentPayRecord i h t) hs) rs)
       = Inr (hours_times_rates (h @ hs) (t @ rs))
   \<and> income (add_rates (add_hours (WorkingHolidayPayRecord i h t v (Some y)) hs) rs)
       = Inr (y + hours_times_rates (h @ hs) (t @ rs))
   \<and> (length (self_hours r) = length (self_rates r) \<and> income r = Inr x
        \<longrightarrow> fst (read_property Income (add_rates (add_hours r hs) rs))
              = Inr (x + hours_times_rates hs rs)
          \<and> fst (read_property Tax (add_rates (add_hours r hs) rs))
              = calculate_tax (tax_brackets r) (x + hours_times_rates hs rs)
          \<and> fst (read_property Net (add_rates (add_hours r hs) rs))
              = (case calculate_tax (tax_brackets r) (x + hours_times_rates hs rs) of
                   Inl e \<Rightarrow> Inl e
                 | Inr tx \<Rightarrow> Inr (x + hours_times_rates hs rs - tx)))"
proof -
  have same: "read_property p (snd (read_property q r)) = read_property p r"
    by (cases q) simp_all
  have after: "income (add_rates (add_hours r hs) rs) = Inr (x + hours_times_rates hs rs)
      \<and> tax_brackets (add_rates (add_hours r hs) rs) = tax_brackets r"
    if "length (self_hours r) = length (self_rates r)" "income r = Inr x"
    using that by (cases r rule: income.cases) (simp_all add: hours_times_rates_append)
  show ?thesis
    using same after by (simp add: tax_def net_def)
qed

text \<open>
  C8 at a resident record with hours \<open>[10]\<close> and rates \<open>[40]\<close>: the income reads 400
  twice; after the append of \<open>[5]\<close> and \<open>[45]\<close> it reads 625, the tax 173.0649 and the net
  451.9351.
\<close>

theorem derived_values_recomputed_on_every_read_witness:
  "fst (read_property Income (ResidentPayRecord 1 [10] [40])) = Inr 400
   \<and> fst (read_property Income (snd (read_property Income (ResidentPayRecord 1 [10] [40])))) = Inr 400
   \<and> fst (read_property Income (add_rates (add_hours (ResidentPayRecord 1 [10] [40]) [5]) [45])) = Inr 625
   \<and> fst (read_property Tax (add_rates (add_hours (ResidentPayRecord 1 [10] [40]) [5]) [45])) = Inr 173.0649
   \<and> fst (read_property Net (add_rates (add_hours (ResidentPayRecord 1 [10] [40]) [5]) [45])) = Inr 451.9351"
proof -
  have i: "income (ResidentPayRecord 1 [10] [40]) = Inr 400"
    by (simp add: hours_times_rates_def py_sum_def)
  have h: "hours_times_rates [5] [45] = 225"
    by (simp add: hours_times_rates_def py_sum_def)
  have c: "calculate_tax RESIDENT_TAX_BRACKETS 625 = Inr 173.0649"
    by (simp add: RESIDENT_TAX_BRACKETS_def in_bracket_def)
  from derived_values_recomputed_on_every_read
    [where p = Income and q = Income and r = "ResidentPayRecord 1 [10] [40]" and x = 400
       and hs = "[5]" and rs = "[45]"]
  show ?thesis using i h c by simp
qed

section \<open>Hours and rates of unequal length\<close>

text \<open>
  C9: whatever the lengths of the two lists, the income sums \<open>hours[k] * rates[k]\<close> over
  the positions below the shorter length only (\<^verbatim>\<open>zip\<close> stops at the shorter list): the
  surplus entries of the longer list change nothing, and the record has the income of
  the record with both lists cut to the shorter length.
\<close>

theorem income_truncates_to_shorter:
  "income (ResidentPayRecord i hs rs) = Inr (\<Sum>k<min (length hs) (length rs). hs ! k * rs ! k)
   \<and> income (WorkingHolidayPayRecord i hs rs v (Some y))
       = Inr (y + (\<Sum>k<min (length hs) (length rs). hs ! k * rs ! k))
   \<and> income (ResidentPayRecord i hs rs)
       = income (ResidentPayRecord i (take (min (length hs) (length rs)) hs)
                                     (take (min (length hs) (length rs)) rs))
   \<and> income (WorkingHolidayPayRecord i hs rs v (Some y))
       = income (WorkingHolidayPayRecord i (take (min (length hs) (length rs)) hs)
                                           (take (min (length hs) (length rs)) rs) v (Some y))"
  using hours_times_rates_nth [of hs rs] hours_times_rates_take [of hs rs] by simp

text \<open>C9 at three hours against two rates, and at two hours against three rates.\<close>

theorem income_truncates_to_shorter_witness:
  "income (ResidentPayRecord 7 [10, 5, 8] [40, 45]) = Inr 625
   \<and> income (ResidentPayRecord 7 [10, 5] [40, 45, 50]) = Inr 625"
  using income_truncates_to_shorter [of 7 "[10, 5, 8]" "[40, 45]"]
        income_truncates_to_shorter [of 7 "[10, 5]" "[40, 45, 50]"]
  by (simp add: lessThan_Suc numeral_2_eq_2)

section \<open>A negative tax in the first resident band\<close>



end
